theory Spec2Isabelle
  imports Complex_Main "HOL-Library.Word"
begin

section \<open>The web front end: \<open>src/web/static/js/main.js\<close>\<close>

subsection \<open>JavaScript strings\<close>

text \<open>
  A JavaScript string is a sequence of UTF-16 code units and \<open>s.length\<close> counts code
  units, so a string is a list of 16-bit words and \<open>length\<close> is \<open>List.length\<close>.
\<close>

type_synonym jsstring = "16 word list"

subsection \<open>Field errors and query validation\<close>

text \<open>
  What the script can observe and change of a form field through jQuery: whether the
  field carries the class \<open>is-invalid\<close>, and the texts of its sibling elements of class
  \<open>invalid-feedback\<close>, in document order.
\<close>

record field =
  is_invalid :: bool
  feedback :: "jsstring list"

text \<open>
  A jQuery selection by id holds the element or nothing; every jQuery method on the empty
  selection does nothing. So a selection is a \<open>field option\<close>.

  \<open>showFieldError\<close>: with no feedback sibling, one is inserted after the field with the
  message as its content; otherwise \<open>errorDiv.text(message)\<close> sets the text of every
  feedback sibling. Then the class \<open>is-invalid\<close> is added.
\<close>

definition showFieldError :: "field option \<Rightarrow> jsstring \<Rightarrow> field option" where
  "showFieldError fld message =
     map_option (\<lambda>f.
       (if length (feedback f) = 0
        then f\<lparr>feedback := [message]\<rparr>
        else f\<lparr>feedback := map (\<lambda>_. message) (feedback f)\<rparr>)\<lparr>is_invalid := True\<rparr>) fld"

text \<open>\<open>clearFieldError\<close>: the class is removed, and so is every feedback sibling.\<close>

definition clearFieldError :: "field option \<Rightarrow> field option" where
  "clearFieldError fld = map_option (\<lambda>f. f\<lparr>is_invalid := False, feedback := []\<rparr>) fld"

text \<open>The message of \<open>validateQuery\<close>, twelve code units (eleven CJK characters and \<open>2\<close>).\<close>

definition query_too_short :: jsstring where
  "query_too_short =
     [0x67E5, 0x8BE2, 0x5185, 0x5BB9, 0x81F3, 0x5C11, 0x9700, 0x8981, 0x32, 0x4E2A, 0x5B57, 0x7B26]"

text \<open>
  \<open>validateQuery(query)\<close>: the page state is the selection \<open>$('#query')\<close>; the result is
  the returned boolean and the page state afterwards.
\<close>

definition validateQuery :: "jsstring \<Rightarrow> field option \<Rightarrow> bool \<times> field option" where
  "validateQuery query queryField =
     (if length query < 2
      then (False, showFieldError queryField query_too_short)
      else (True, clearFieldError queryField))"

subsection \<open>The live search\<close>

text \<open>
  \<open>performSearch\<close> returns early on a short query; otherwise all it does is one call of
  \<open>console.log\<close> with a label and the query. The console is the list of logged argument
  lists.
\<close>

definition search_label :: jsstring where
  "search_label = [0x6267, 0x884C, 0x641C, 0x7D22, 0x3A]"

definition performSearch :: "jsstring \<Rightarrow> jsstring list list \<Rightarrow> jsstring list list" where
  "performSearch query console =
     (if length query < 2 then console else console @ [[search_label, query]])"

subsection \<open>JavaScript numbers and \<open>formatNumber\<close>\<close>

text \<open>
  A JavaScript number is an IEEE 754 double. The number of binary digits of a natural
  number:
\<close>

fun bitlen :: "nat \<Rightarrow> nat" where
  "bitlen n = (if n = 0 then 0 else Suc (bitlen (n div 2)))"

declare bitlen.simps [simp del]

text \<open>The integer nearest to \<open>a / b\<close>, a tie going to the even one.\<close>

definition round_even :: "nat \<Rightarrow> nat \<Rightarrow> nat" where
  "round_even a b =
     (let d = a div b; r = a mod b
      in if 2 * r < b then d
         else if b < 2 * r then d + 1
         else if even d then d else d + 1)"

text \<open>
  The double nearest to a natural number: the number rounded to 53 significant bits,
  ties to even. Below \<open>2 ^ 53\<close> every natural number is a double.
\<close>

definition round_int :: "nat \<Rightarrow> nat" where
  "round_int c = (let s = bitlen c - 53 in round_even c (2 ^ s) * 2 ^ s)"

text \<open>
  \<open>formatNumber\<close> is modelled on the integer-valued numbers: the integers that are finite
  doubles. (A number with a fraction, \<open>NaN\<close> and the infinities are outside this type.)
\<close>

typedef jsint = "{z :: int. round_int (nat \<bar>z\<bar>) = nat \<bar>z\<bar> \<and> \<bar>z\<bar> < 2 ^ 1024}"
  morphisms int_of Number
proof
  show "0 \<in> {z :: int. round_int (nat \<bar>z\<bar>) = nat \<bar>z\<bar> \<and> \<bar>z\<bar> < 2 ^ 1024}"
    by (simp add: round_int_def round_even_def bitlen.simps [of 0])
qed

text \<open>
  The two quotients \<open>formatNumber\<close> computes are not integers: a positive finite double is
  \<open>mant * 2 ^ expo\<close>.
\<close>

record double =
  mant :: nat
  expo :: int

text \<open>\<open>ilog2 p q\<close> is the binary exponent of \<open>p / q\<close>: the \<open>e\<close> with \<open>2 ^ e \<le> p / q < 2 ^ (e + 1)\<close>.\<close>

definition ilog2 :: "nat \<Rightarrow> nat \<Rightarrow> int" where
  "ilog2 p q =
     (let d = int (bitlen p) - int (bitlen q)
      in if q * 2 ^ nat d \<le> p * 2 ^ nat (- d) then d else d - 1)"

text \<open>
  The operator \<open>/\<close> on two positive integer-valued doubles \<open>p\<close> and \<open>q\<close>: the exact
  quotient rounded to 53 significant bits, ties to even (the quotients here are far from
  the subnormal and the overflow range).
\<close>

definition fdiv :: "nat \<Rightarrow> nat \<Rightarrow> double" where
  "fdiv p q =
     (let k = 52 - ilog2 p q
      in \<lparr>mant = round_even (p * 2 ^ nat k) (q * 2 ^ nat (- k)), expo = - k\<rparr>)"

definition digit :: "nat \<Rightarrow> char" where
  "digit d = ''0123456789'' ! d"

text \<open>The digits of the decimal representation of a natural number.\<close>

fun digits :: "nat \<Rightarrow> string" where
  "digits n = (if n < 10 then [digit n] else digits (n div 10) @ [digit (n mod 10)])"

declare digits.simps [simp del]



text \<open>
  \<open>Number::toString\<close> on a positive integer-valued double \<open>x\<close>, as ECMAScript defines it:
  with \<open>n\<close>, \<open>k\<close> and \<open>s\<close> such that \<open>s\<close> has \<open>k\<close> digits, \<open>s * 10 ^ (n - k)\<close> rounds to \<open>x\<close>
  and \<open>k\<close> is as small as possible (of several such \<open>s\<close> the one with \<open>s * 10 ^ (n - k)\<close>
  closest to \<open>x\<close>; of two equally close ones, which ECMAScript leaves open, the even
  one), the result shows the \<open>k\<close> digits of \<open>s\<close>.

  \<open>candidates x d k\<close> are the two numbers of \<open>k\<close> significant digits that enclose \<open>x\<close>, a
  number of \<open>d\<close> digits, the closer one first; rounding is monotone, so if any number of
  \<open>k\<close> significant digits rounds to \<open>x\<close> then one of these does. \<open>shortest x\<close> is the first
  of them, from \<open>k = 1\<close> on, that rounds to \<open>x\<close>: the number \<open>s * 10 ^ (n - k)\<close>.
\<close>

definition candidates :: "nat \<Rightarrow> nat \<Rightarrow> nat \<Rightarrow> nat list" where
  "candidates x d k =
     (let u = 10 ^ (d - k); lo = x div u * u; hi = lo + u
      in if x - lo < hi - x \<or> (x - lo = hi - x \<and> even (x div u)) then [lo, hi] else [hi, lo])"

definition shortest :: "nat \<Rightarrow> nat" where
  "shortest x =
     (let d = length (digits x)
      in case List.find (\<lambda>c. round_int c = x) (concat (map (candidates x d) [1..<d])) of
           None \<Rightarrow> x
         | Some c \<Rightarrow> c)"

text \<open>
  With \<open>n\<close> at most 21 the result is the digits of \<open>s\<close> followed by \<open>n - k\<close> zeros, which
  are the digits of \<open>s * 10 ^ (n - k)\<close>; from 22 on it is the first digit of \<open>s\<close>, a point
  and the other digits if there are any, \<open>e+\<close> and \<open>n - 1\<close>.
\<close>

definition strip_zeros :: "string \<Rightarrow> string" where
  "strip_zeros ds = rev (dropWhile (\<lambda>c. c = CHR ''0'') (rev ds))"

definition toString_nat :: "nat \<Rightarrow> string" where
  "toString_nat x =
     (let ds = digits (shortest x)
      in if length ds \<le> 21 then ds
         else
           (case strip_zeros ds of
              [] \<Rightarrow> []
            | c # cs \<Rightarrow> (if cs = [] then [c] else c # CHR ''.'' # cs) @ ''e+'' @ digits (length ds - 1)))"

text \<open>\<open>num.toString()\<close> on an integer-valued number.\<close>

definition toString :: "int \<Rightarrow> string" where
  "toString num = (if num < 0 then ''-'' @ toString_nat (nat (- num)) else toString_nat (nat num))"

text \<open>
  \<open>Number.prototype.toFixed(f)\<close> on a positive double \<open>x\<close>, as ECMAScript defines it. From
  \<open>10 ^ 21\<close> on, the result is that of \<open>Number::toString\<close> (such a double is an integer).
  Below, \<open>n\<close> is the integer for which \<open>n / 10 ^ f - x\<close> is as close to zero as possible,
  the larger one if there are two; that is \<open>\<lfloor>10 ^ f * x + 1 / 2\<rfloor>\<close>, on the exact value
  of the double.
\<close>

definition toFixed_n :: "nat \<Rightarrow> double \<Rightarrow> nat" where
  "toFixed_n f x =
     (let a = 10 ^ f * mant x * 2 ^ nat (expo x);
          b = 2 ^ nat (- expo x)
      in (2 * a + b) div (2 * b))"

text \<open>
  Then the digits of \<open>n\<close> are padded with zeros to \<open>f + 1\<close> digits and a point is put
  before the last \<open>f\<close> of them.
\<close>

definition fixed_point :: "nat \<Rightarrow> nat \<Rightarrow> string" where
  "fixed_point f n =
     (let m = digits n
      in if f = 0 then m
         else
           (let m' = (if length m \<le> f then replicate (f + 1 - length m) (CHR ''0'') @ m else m);
                k = length m'
            in take (k - f) m' @ ''.'' @ drop (k - f) m'))"

definition toFixed :: "nat \<Rightarrow> double \<Rightarrow> string" where
  "toFixed f x =
     (if 10 ^ 21 * 2 ^ nat (- expo x) \<le> mant x * 2 ^ nat (expo x)
      then toString_nat (mant x * 2 ^ nat (expo x) div 2 ^ nat (- expo x))
      else fixed_point f (toFixed_n f x))"

definition formatNumber :: "jsint \<Rightarrow> string" where
  "formatNumber num =
     (if int_of num \<ge> 1000000 then toFixed 1 (fdiv (nat (int_of num)) 1000000) @ ''M''
      else if int_of num \<ge> 1000 then toFixed 1 (fdiv (nat (int_of num)) 1000) @ ''K''
      else toString (int_of num))"

section \<open>Properties of the front end\<close>

subsection \<open>Rounding of the quotient\<close>

lemma bitlen_bounds: "0 < n \<Longrightarrow> 2 ^ (bitlen n - 1) \<le> n \<and> n < 2 ^ bitlen n"
proof (induction n rule: bitlen.induct)
  case (1 n)
  show ?case
  proof (cases "n div 2 = 0")
    case True
    with "1.prems" have "n = 1" by presburger
    then show ?thesis by (simp add: bitlen.simps)
  next
    case False
    with "1.IH" "1.prems" have IH: "2 ^ (bitlen (n div 2) - 1) \<le> n div 2" "n div 2 < 2 ^ bitlen (n div 2)"
      by auto
    have pos: "0 < bitlen (n div 2)" using False by (simp add: bitlen.simps)
    have eq: "bitlen n = Suc (bitlen (n div 2))" using "1.prems" by (simp add: bitlen.simps)
    have A: "(2::nat) ^ (bitlen n - 1) = 2 * 2 ^ (bitlen (n div 2) - 1)"
      using pos eq by (cases "bitlen (n div 2)") auto
    have B: "(2::nat) ^ bitlen n = 2 * 2 ^ bitlen (n div 2)" by (simp add: eq)
    have lo: "2 * (n div 2) \<le> n" by presburger
    have hi: "n < 2 * (n div 2) + 2" by presburger
    have "2 ^ (bitlen n - 1) \<le> n" using A IH(1) lo by linarith
    moreover have "n < 2 ^ bitlen n" using B IH(2) hi by linarith
    ultimately show ?thesis by simp
  qed
qed





lemma digits_snoc: "digits n = (if n < 10 then [] else digits (n div 10)) @ [digit (n mod 10)]"
  by (subst digits.simps) simp



subsection \<open>Decimal digits\<close>



lemma bitlen_num: "bitlen (numeral k) = Suc (bitlen (numeral k div 2))" "bitlen 0 = 0" "bitlen 1 = 1" "bitlen (Suc 0) = 1"
  by (simp_all add: bitlen.simps)

lemma digits_num:
  "digits (numeral k) = (if (numeral k :: nat) < 10 then [digit (numeral k)] else digits (numeral k div 10) @ [digit (numeral k mod 10)])"
  "digits 0 = [digit 0]" "digits 1 = [digit 1]" "digits (Suc 0) = [digit 1]"
  by (simp_all add: digits.simps)

subsection \<open>Integers as doubles and their shortest digits\<close>


lemma bitlen_le: "n < 2 ^ k \<Longrightarrow> bitlen n \<le> k"
proof (cases "n = 0")
  case True
  then show ?thesis by (simp add: bitlen.simps [of 0])
next
  case False
  assume n: "n < 2 ^ k"
  from False bitlen_bounds [of n] have "(2::nat) ^ (bitlen n - 1) \<le> n" by simp
  with n have "(2::nat) ^ (bitlen n - 1) < 2 ^ k" by linarith
  then have "bitlen n - 1 < k" by simp
  then show ?thesis by linarith
qed

lemma round_int_small: "c < 2 ^ 53 \<Longrightarrow> round_int c = c"
proof -
  assume "c < 2 ^ 53"
  then have "bitlen c - 53 = 0" using bitlen_le [of c 53] by simp
  then show ?thesis by (simp add: round_int_def round_even_def)
qed






subsection \<open>\<open>toFixed\<close> and \<open>toString\<close> on the safe integers\<close>


lemmas number_eval =
  round_int_def round_even_def candidates_def shortest_def strip_zeros_def toString_nat_def
  toString_def fdiv_def ilog2_def toFixed_def toFixed_n_def fixed_point_def digit_def Let_def
  bitlen_num digits_num

lemma round_int_2_53: "round_int 9007199254740992 = 9007199254740992"
  by (simp add: number_eval)



lemma int_of_Number_safe:
  assumes "\<bar>z\<bar> \<le> 2 ^ 53"
  shows "int_of (Number z) = z"
proof -
  have "round_int (nat \<bar>z\<bar>) = nat \<bar>z\<bar>"
  proof (cases "nat \<bar>z\<bar> < 2 ^ 53")
    case True
    then show ?thesis by (rule round_int_small)
  next
    case False
    with assms have "nat \<bar>z\<bar> = 9007199254740992" by simp
    then show ?thesis by (simp only: round_int_2_53)
  qed
  moreover have "\<bar>z\<bar> < 2 ^ 1024" using assms by simp
  ultimately show ?thesis by (simp add: Number_inverse)
qed

lemma toString_nat_exponent:
  assumes "digits (shortest x) = ds" and "length ds = n" and "21 < n" and "strip_zeros ds = c # cs"
  shows "toString_nat x = (if cs = [] then [c] else c # CHR ''.'' # cs) @ ''e+'' @ digits (n - 1)"
  using assms by (simp add: toString_nat_def Let_def)

lemma int_of_Number_eval:
  "round_int (nat \<bar>z\<bar>) = nat \<bar>z\<bar> \<Longrightarrow> \<bar>z\<bar> < 2 ^ 1024 \<Longrightarrow> int_of (Number z) = z"
  by (simp add: Number_inverse)

subsection \<open>\<open>formatNumber\<close>\<close>




text \<open>
  Ties: the double nearest to \<open>1.45\<close> lies just below it, \<open>1.25\<close> is a double itself (the
  larger neighbour is taken), and the double nearest to \<open>1.05\<close> lies just above it.
\<close>

lemma formatNumber_ties:
  "formatNumber (Number 1450) = ''1.4K''" "formatNumber (Number 1250) = ''1.3K''"
  "formatNumber (Number 1050) = ''1.1K''"
proof -
  have r: "int_of (Number 1450) = 1450" "int_of (Number 1250) = 1250" "int_of (Number 1050) = 1050"
    by (rule int_of_Number_safe, simp)+
  show "formatNumber (Number 1450) = ''1.4K''" "formatNumber (Number 1250) = ''1.3K''"
    "formatNumber (Number 1050) = ''1.1K''"
    by (simp_all add: formatNumber_def r number_eval)
qed

text \<open>
  Beyond \<open>2 ^ 53\<close> the digits are the shortest that identify the double: \<open>- 2 ^ 55\<close> and
  \<open>- 2 ^ 60\<close> are printed with zeros for their last digits, and the quotient of \<open>2 ^ 90\<close>
  in exponent form.
\<close>

lemma formatNumber_large:
  "formatNumber (Number (- 36028797018963968)) = ''-36028797018963970''"
  "formatNumber (Number (- 1152921504606846976)) = ''-1152921504606847000''"
  "formatNumber (Number 1237940039285380274899124224) = ''1.2379400392853802e+21M''"
proof -
  have r: "int_of (Number (- 36028797018963968)) = - 36028797018963968"
    "int_of (Number (- 1152921504606846976)) = - 1152921504606846976"
    "int_of (Number 1237940039285380274899124224) = 1237940039285380274899124224"
    by (rule int_of_Number_eval, simp_all add: number_eval)+
  show "formatNumber (Number (- 36028797018963968)) = ''-36028797018963970''"
    by (simp add: formatNumber_def r number_eval)
  show "formatNumber (Number (- 1152921504606846976)) = ''-1152921504606847000''"
    by (simp add: formatNumber_def r number_eval)
  have "toString_nat 1237940039285380218880 =
      (if ''2379400392853802'' = [] then [CHR ''1''] else CHR ''1'' # CHR ''.'' # ''2379400392853802'')
        @ ''e+'' @ digits (22 - 1)"
    by (rule toString_nat_exponent [where ds = "''1237940039285380200000''"])
      (simp_all add: round_int_def round_even_def candidates_def shortest_def strip_zeros_def
        digit_def Let_def bitlen_num digits_num)
  then have s: "toString_nat 1237940039285380218880 = ''1.2379400392853802e+21''"
    by (simp add: digits_num digit_def)
  show "formatNumber (Number 1237940039285380274899124224) = ''1.2379400392853802e+21M''"
    by (simp add: formatNumber_def r fdiv_def ilog2_def round_even_def toFixed_def bitlen_num Let_def s)
qed

subsection \<open>\<open>validateQuery\<close> and \<open>performSearch\<close>\<close>

text \<open>
  Claim C10. On a page that has the query field: a query of fewer than two code units
  makes \<open>validateQuery\<close> return \<open>false\<close> and leaves the field marked invalid with the
  message in every feedback element (one is created when there was none), and
  \<open>performSearch\<close> leaves the console as it was; any other query makes \<open>validateQuery\<close>
  return \<open>true\<close> and leaves the field unmarked with no feedback element.
\<close>

theorem validateQuery_two_characters:
  "(length q < 2 \<longrightarrow>
      validateQuery q (Some f) =
        (False, Some \<lparr>is_invalid = True,
                      feedback = (if feedback f = [] then [query_too_short]
                                  else map (\<lambda>_. query_too_short) (feedback f))\<rparr>) \<and>
      performSearch q console = console) \<and>
   (\<not> length q < 2 \<longrightarrow>
      validateQuery q (Some f) = (True, Some \<lparr>is_invalid = False, feedback = []\<rparr>))"
  by (simp add: validateQuery_def showFieldError_def clearFieldError_def performSearch_def)

theorem validateQuery_two_characters_witness:
  "validateQuery [0x61] (Some \<lparr>is_invalid = False, feedback = []\<rparr>) =
     (False, Some \<lparr>is_invalid = True, feedback = [query_too_short]\<rparr>) \<and>
   performSearch [0x61] [] = [] \<and>
   validateQuery [0x61, 0x62] (Some \<lparr>is_invalid = True, feedback = [query_too_short]\<rparr>) =
     (True, Some \<lparr>is_invalid = False, feedback = []\<rparr>)"
  using validateQuery_two_characters [of "[0x61]" "\<lparr>is_invalid = False, feedback = []\<rparr>" "[]"]
    validateQuery_two_characters [of "[0x61, 0x62]" "\<lparr>is_invalid = True, feedback = [query_too_short]\<rparr>" "[]"]
  by simp

end
